theory Spec2Isabelle
  imports Complex_Main "HOL-Library.Sublist"
begin

section \<open>The continual-learning model of models/utils/continual_model.py\<close>

text \<open>
  A shallow embedding of the class \<^verbatim>\<open>ContinualModel\<close>. Every method becomes a function
  on a record of the instance's attributes; a raised exception is the left injection of
  a sum type, and a method that mutates the instance returns the updated record. Every
  method here that raises does so before its first assignment, so after an exception the
  instance is the one that was passed in.
  Objects of the tensor library, of the dataset registry and of the experiment tracker
  are outside the file: they are values of a type variable \<open>'x\<close>, or parameters of the
  function that calls them.
\<close>

subsection \<open>Exceptions\<close>

text \<open>
  The exception classes the methods raise, with their messages (for \<^verbatim>\<open>AssertionError\<close> the
  format string and the values it is applied to). \<open>External\<close> stands for
  whatever a collaborator outside the file raises.
\<close>

datatype error =
    NotImplementedError string
  | ValueError string
  | AssertionError string "int list"
  | IndexError
  | AttributeError
  | NameError
  | External string

subsection \<open>Python sequences\<close>

text \<open>
  \<^verbatim>\<open>xs[i]\<close>: a negative index counts from the end, an index out of range raises.
\<close>

definition py_index :: "'a list \<Rightarrow> int \<Rightarrow> error + 'a" where
  "py_index xs i =
     (if 0 \<le> i \<and> i < int (length xs) then Inr (xs ! nat i)
      else if i < 0 \<and> - int (length xs) \<le> i then Inr (xs ! nat (int (length xs) + i))
      else Inl IndexError)"

text \<open>
  \<^verbatim>\<open>xs[:k]\<close>: a negative bound counts from the end, and a bound out of range is clamped;
  a slice never raises.
\<close>

definition py_slice_to :: "'a list \<Rightarrow> int \<Rightarrow> 'a list" where
  "py_slice_to xs k = (if k < 0 then take (nat (int (length xs) + k)) xs else take (nat k) xs)"

subsection \<open>Data model\<close>

text \<open>
  \<^verbatim>\<open>N_CLASSES_PER_TASK\<close> is an \<^verbatim>\<open>int\<close> when every task has the same number of classes, and
  a sequence of \<^verbatim>\<open>int\<close> otherwise; \<^verbatim>\<open>isinstance(self.cpt, int)\<close> tells them apart.
\<close>

datatype cpt = Scalar int | PerTask "int list"

text \<open>The dataset attributes the constructor reads.\<close>

record dataset =
  ds_N_CLASSES :: int
  ds_N_TASKS :: int
  ds_SETTING :: string
  ds_N_CLASSES_PER_TASK :: cpt

text \<open>The fields of the \<^verbatim>\<open>Namespace\<close> of options that the class reads.\<close>

record namespace =
  optimizer :: string
  lr :: rat
  optim_wd :: rat
  optim_mom :: rat
  label_perc :: rat
  buffer_size :: int
  nowand :: bool
  debug_mode :: bool

text \<open>
  The integer dtypes of the tensor library, each with the least and the greatest value
  it holds.
\<close>

datatype dtype = UInt8 | Int8 | Int16 | Int32 | Int64

fun dtype_range :: "dtype \<Rightarrow> int \<times> int" where
  "dtype_range UInt8 = (0, 255)"
| "dtype_range Int8 = (- 128, 127)"
| "dtype_range Int16 = (- 32768, 32767)"
| "dtype_range Int32 = (- 2147483648, 2147483647)"
| "dtype_range Int64 = (- 9223372036854775808, 9223372036854775807)"

definition in_dtype :: "dtype \<Rightarrow> int \<Rightarrow> bool" where
  "in_dtype dt l = (fst (dtype_range dt) \<le> l \<and> l \<le> snd (dtype_range dt))"

text \<open>
  A Python integer as an element of the dtype, when it is compared with a tensor of that
  dtype: the value wraps around into the range of the dtype.
\<close>

definition to_dtype :: "dtype \<Rightarrow> int \<Rightarrow> int" where
  "to_dtype dt k =
     (case dtype_range dt of (lo, hi) \<Rightarrow> lo + (k - lo) mod (hi - lo + 1))"

text \<open>
  A value handed to \<^verbatim>\<open>meta_observe\<close> or bound to a local of \<^verbatim>\<open>observe\<close>: an object that is
  not a tensor, a zero-dimensional tensor, a one-dimensional integer tensor (the
  labels) with its dtype, or a tensor of at least one dimension given by its slices along
  dimension 0.
\<close>

datatype 'x pyval =
    Plain 'x
  | Tensor0 'x
  | IntTensor dtype "int list"
  | Tensor "'x list"

text \<open>The replay buffer: \<^verbatim>\<open>buffer.examples\<close>, by its slices along dimension 0.\<close>

record 'x replay_buffer =
  examples :: "'x list"

text \<open>
  The instance. An attribute is \<open>None\<close> until the statement that creates it has run
  (\<^verbatim>\<open>opt\<close> and \<^verbatim>\<open>device\<close> inside the constructor, \<^verbatim>\<open>buffer\<close> and the four counters of
  \<^verbatim>\<open>meta_begin_task\<close> after it); \<^verbatim>\<open>NAME\<close> and \<^verbatim>\<open>COMPATIBILITY\<close> are the class
  attributes of the concrete strategy.
\<close>

record 'x model =
  NAME :: string
  COMPATIBILITY :: "string list"
  net :: "'x option"
  loss :: 'x
  args :: namespace
  transform :: 'x
  dataset :: dataset
  N_CLASSES :: int
  N_TASKS :: int
  SETTING :: string
  cpt :: cpt
  current_task :: int
  weak_transform :: "'x option"
  normalization_transform :: "'x option"
  opt :: "'x option"
  device :: "'x option"
  buffer :: "'x replay_buffer option"
  n_classes_current_task :: "int option"
  n_seen_classes :: "int option"
  n_remaining_classes :: "int option"
  n_past_classes :: "int option"

subsection \<open>Task boundaries\<close>

text \<open>\<^verbatim>\<open>begin_task\<close> and \<^verbatim>\<open>end_task\<close> of the base class: \<^verbatim>\<open>pass\<close>.\<close>

definition begin_task :: "'x model \<Rightarrow> dataset \<Rightarrow> error + 'x model" where
  "begin_task m d = Inr m"

definition end_task :: "'x model \<Rightarrow> dataset \<Rightarrow> error + 'x model" where
  "end_task m d = Inr m"

text \<open>
  \<^verbatim>\<open>meta_begin_task\<close>, one binding per assignment of the source. Only the first one can
  raise (the index into the sequence); the slices and the sums cannot.
\<close>

definition meta_begin_task :: "'x model \<Rightarrow> dataset \<Rightarrow> error + 'x model" where
  "meta_begin_task m d =
     (case (case cpt m of Scalar c \<Rightarrow> Inr c | PerTask cs \<Rightarrow> py_index cs (current_task m)) of
        Inl e \<Rightarrow> Inl e
      | Inr cur \<Rightarrow>
          let seen = (case cpt m of
                        Scalar c \<Rightarrow> c * (current_task m + 1)
                      | PerTask cs \<Rightarrow> sum_list (py_slice_to cs (current_task m + 1)));
              remaining = N_CLASSES m - seen;
              past = (case cpt m of
                        Scalar c \<Rightarrow> c * current_task m
                      | PerTask cs \<Rightarrow> sum_list (py_slice_to cs (current_task m)))
          in begin_task
               (m\<lparr>n_classes_current_task := Some cur,
                  n_seen_classes := Some seen,
                  n_remaining_classes := Some remaining,
                  n_past_classes := Some past\<rparr>) d)"

text \<open>\<^verbatim>\<open>meta_end_task\<close>: the task index advances, then the hook runs.\<close>

definition meta_end_task :: "'x model \<Rightarrow> dataset \<Rightarrow> error + 'x model" where
  "meta_end_task m d = end_task (m\<lparr>current_task := current_task m + 1\<rparr>) d"

subsection \<open>The observation step\<close>

text \<open>\<^verbatim>\<open>observe\<close> of the base class: the body is \<^verbatim>\<open>raise NotImplementedError\<close>.\<close>

definition observe ::
  "'x model \<Rightarrow> 'x pyval \<Rightarrow> 'x pyval \<Rightarrow> 'x pyval \<Rightarrow> 'x pyval option \<Rightarrow> error + 'r" where
  "observe m inputs labels not_aug_inputs epoch = Inl (NotImplementedError [])"

text \<open>A \<^verbatim>\<open>dict\<close> with string keys: keyword arguments, local bindings, a logged mapping.\<close>

type_synonym 'x bindings = "string \<rightharpoonup> 'x pyval"

text \<open>
  The \<^verbatim>\<open>observe\<close> of a concrete strategy, as \<^verbatim>\<open>meta_observe\<close> calls it: from the positional
  and the keyword arguments to an exception, or to the returned value together with the
  local bindings of the call at its return.

  Modelled from the spec: \<^verbatim>\<open>utils.magic.persistent_locals\<close> is not among the sources. The
  spec has it execute \<^verbatim>\<open>observe\<close> "while capturing every local binding created during its
  execution"; the second component of the result is that capture, which the plain call
  discards.
\<close>

type_synonym ('x, 'r) strategy_observe =
  "'x pyval list \<Rightarrow> 'x bindings \<Rightarrow> error + ('r \<times> 'x bindings)"

text \<open>
  \<^verbatim>\<open>arg.shape[0]\<close>: an object that is not a tensor has no \<^verbatim>\<open>shape\<close>, and the shape of a
  zero-dimensional tensor is the empty tuple.
\<close>

fun shape0 :: "'x pyval \<Rightarrow> error + nat" where
  "shape0 (Plain x) = Inl AttributeError"
| "shape0 (Tensor0 x) = Inl IndexError"
| "shape0 (IntTensor dt ls) = Inr (length ls)"
| "shape0 (Tensor rs) = Inr (length rs)"

text \<open>
  What a call comes to. \<open>Unsupported\<close> is not an exception of the code: it marks an input
  that the embedding does not cover.
\<close>

datatype 'a outcome = Unsupported | Raised error | Returned 'a

text \<open>
  \<^verbatim>\<open>args[1] != -1\<close> for a one-dimensional integer tensor of labels, the only kind of label
  argument that the embedding covers. The comparison is made in the dtype of the tensor:
  in a signed dtype the sentinel is -1, in \<^verbatim>\<open>uint8\<close> it is 255.
\<close>

fun labeled_mask :: "'x pyval \<Rightarrow> bool list option" where
  "labeled_mask (IntTensor dt ls) = Some (map (\<lambda>l. l \<noteq> to_dtype dt (- 1)) ls)"
| "labeled_mask (Plain x) = None"
| "labeled_mask (Tensor0 x) = None"
| "labeled_mask (Tensor rs) = None"

text \<open>
  \<^verbatim>\<open>t[mask]\<close> along dimension 0 for a one-dimensional boolean mask: the slices whose mask
  entry is true, in order; the tensor library raises \<^verbatim>\<open>IndexError\<close> when the mask is not
  as long as the dimension.
\<close>

definition index_mask :: "'a list \<Rightarrow> bool list \<Rightarrow> error + 'a list" where
  "index_mask xs keep =
     (if length keep = length xs then Inr (map fst (filter snd (zip xs keep)))
      else Inl IndexError)"

text \<open>
  One element of the list comprehension of \<^verbatim>\<open>meta_observe\<close>:
  \<^verbatim>\<open>arg[labeled_mask] if isinstance(arg, torch.Tensor) and arg.shape[0] == args[0].shape[0] else arg\<close>,
  with \<open>first\<close> for \<^verbatim>\<open>args[0]\<close>. \<^verbatim>\<open>isinstance\<close> is false of \<open>Plain\<close> alone, and the operands are
  evaluated from left to right.
\<close>

fun select_labeled :: "bool list \<Rightarrow> 'x pyval \<Rightarrow> 'x pyval \<Rightarrow> error + 'x pyval" where
  "select_labeled keep first (Plain x) = Inr (Plain x)"
| "select_labeled keep first (Tensor0 x) = Inl IndexError"
| "select_labeled keep first (IntTensor dt ls) =
     (case shape0 first of
        Inl e \<Rightarrow> Inl e
      | Inr b \<Rightarrow>
          if length ls = b
          then (case index_mask ls keep of
                  Inl e \<Rightarrow> Inl e
                | Inr ks \<Rightarrow> Inr (IntTensor dt ks))
          else Inr (IntTensor dt ls))"
| "select_labeled keep first (Tensor rs) =
     (case shape0 first of
        Inl e \<Rightarrow> Inl e
      | Inr b \<Rightarrow>
          if length rs = b
          then (case index_mask rs keep of Inl e \<Rightarrow> Inl e | Inr ks \<Rightarrow> Inr (Tensor ks))
          else Inr (Tensor rs))"

text \<open>A list comprehension whose element expression can raise: the first exception ends it.\<close>

fun comprehension :: "('a \<Rightarrow> error + 'b) \<Rightarrow> 'a list \<Rightarrow> error + 'b list" where
  "comprehension f [] = Inr []"
| "comprehension f (x # xs) =
     (case f x of
        Inl e \<Rightarrow> Inl e
      | Inr y \<Rightarrow> (case comprehension f xs of Inl e \<Rightarrow> Inl e | Inr ys \<Rightarrow> Inr (y # ys)))"

text \<open>
  The first statement of \<^verbatim>\<open>meta_observe\<close>: the positional arguments that \<^verbatim>\<open>observe\<close> will
  receive. \<^verbatim>\<open>args[1]\<close> raises when there are fewer than two of them.
\<close>

definition drop_unlabeled :: "'x model \<Rightarrow> 'x pyval list \<Rightarrow> 'x pyval list outcome" where
  "drop_unlabeled m as =
     (if ''cssl'' \<notin> set (COMPATIBILITY m) then
        (case py_index as 1 of
           Inl e \<Rightarrow> Raised e
         | Inr labels \<Rightarrow>
             (case labeled_mask labels of
                None \<Rightarrow> Unsupported
              | Some keep \<Rightarrow>
                  (case comprehension (select_labeled keep (as ! 0)) as of
                     Inl e \<Rightarrow> Raised e
                   | Inr as' \<Rightarrow> Returned as')))
      else Returned as)"

text \<open>
  \<^verbatim>\<open>autolog_wandb\<close>. The sink is the list of the mappings passed to \<^verbatim>\<open>wandb.log\<close> so far;
  \<open>wandb_imported\<close> says whether \<^verbatim>\<open>import wandb\<close> succeeded, that is, whether the name \<^verbatim>\<open>wandb\<close>
  is bound in the module and \<^verbatim>\<open>'wandb' in sys.modules\<close> holds.
\<close>

definition item :: "'x pyval \<Rightarrow> 'x pyval" where
  "item v = (case v of Tensor0 x \<Rightarrow> Plain x | _ \<Rightarrow> v)"

definition autolog_wandb ::
  "bool \<Rightarrow> 'x model \<Rightarrow> 'x bindings \<Rightarrow> 'x bindings option \<Rightarrow> 'x bindings list \<Rightarrow>
     (error + unit) \<times> 'x bindings list" where
  "autolog_wandb wandb_imported m locals extra sink =
     (if \<not> nowand (args m) \<and> \<not> debug_mode (args m) then
        let tmp = (\<lambda>k. if prefix ''_wandb_'' k \<or> prefix ''loss'' k
                        then map_option item (locals k) else None);
            tmp = tmp ++ (case extra of None \<Rightarrow> Map.empty | Some e \<Rightarrow> e)
        in if wandb_imported then (Inr (), sink @ [tmp]) else (Inl NameError, sink)
      else (Inr (), sink))"

text \<open>
  The rest of \<^verbatim>\<open>meta_observe\<close>, from the test of \<^verbatim>\<open>sys.modules\<close> on: \<^verbatim>\<open>observe\<close> is called once,
  with the positional arguments \<open>as\<close> and the keyword arguments \<open>kwargs\<close>.
\<close>

definition call_observe ::
  "bool \<Rightarrow> 'x model \<Rightarrow> ('x, 'r) strategy_observe \<Rightarrow> 'x pyval list \<Rightarrow> 'x bindings \<Rightarrow>
     'x bindings list \<Rightarrow> 'r outcome \<times> 'x bindings list" where
  "call_observe wandb_imported m obs as kwargs sink =
     (if wandb_imported \<and> \<not> nowand (args m) then
        (case obs as kwargs of
           Inl e \<Rightarrow> (Raised e, sink)
         | Inr (ret, locals) \<Rightarrow>
             (case autolog_wandb wandb_imported m locals None sink of
                (Inl e, sink') \<Rightarrow> (Raised e, sink')
              | (Inr u, sink') \<Rightarrow> (Returned ret, sink')))
      else
        (case obs as kwargs of
           Inl e \<Rightarrow> (Raised e, sink)
         | Inr (ret, locals) \<Rightarrow> (Returned ret, sink)))"

definition meta_observe ::
  "bool \<Rightarrow> 'x model \<Rightarrow> ('x, 'r) strategy_observe \<Rightarrow> 'x pyval list \<Rightarrow> 'x bindings \<Rightarrow>
     'x bindings list \<Rightarrow> 'r outcome \<times> 'x bindings list" where
  "meta_observe wandb_imported m obs as kwargs sink =
     (case drop_unlabeled m as of
        Unsupported \<Rightarrow> (Unsupported, sink)
      | Raised e \<Rightarrow> (Raised e, sink)
      | Returned as' \<Rightarrow> call_observe wandb_imported m obs as' kwargs sink)"

subsection \<open>The optimizer\<close>

text \<open>
  What the constructor and \<^verbatim>\<open>get_optimizer\<close> call outside the file:
  \<^item> \<open>get_dataset\<close>: \<^verbatim>\<open>datasets.get_dataset(args)\<close>;
  \<^item> \<open>weak_kornia\<close>: \<^verbatim>\<open>to_kornia_transform(transform.transforms[-1].transforms)\<close>, from the
    transform pipeline;
  \<^item> \<open>normalization_kornia\<close>:
    \<^verbatim>\<open>to_kornia_transform(self.dataset.get_normalization_transform())\<close>, from the dataset;
  \<^item> \<open>optim_dir\<close>: \<^verbatim>\<open>dir(optim)\<close>, the names of the optimizer module in the order \<^verbatim>\<open>dir\<close> lists
    them;
  \<^item> \<open>optim_new\<close>: \<^verbatim>\<open>getattr(optim, name)(params, lr=..., weight_decay=..., momentum=...)\<close>,
    from the name, the backbone whose parameters are taken and the three options;
  \<^item> \<open>get_device\<close>: \<^verbatim>\<open>utils.conf.get_device()\<close>.
  Each of them returns or raises.
\<close>

record 'x library =
  get_dataset :: "namespace \<Rightarrow> error + dataset"
  weak_kornia :: "'x \<Rightarrow> error + 'x"
  normalization_kornia :: "dataset \<Rightarrow> error + 'x"
  optim_dir :: "string list"
  optim_new :: "string \<Rightarrow> 'x \<Rightarrow> rat \<Rightarrow> rat \<Rightarrow> rat \<Rightarrow> error + 'x"
  get_device :: "error + 'x"

text \<open>\<^verbatim>\<open>str.lower\<close>, on the letters of ASCII.\<close>

definition lower_char :: "char \<Rightarrow> char" where
  "lower_char c =
     (case map_of (zip ''ABCDEFGHIJKLMNOPQRSTUVWXYZ'' ''abcdefghijklmnopqrstuvwxyz'') c of
        None \<Rightarrow> c
      | Some l \<Rightarrow> l)"

definition lower :: "string \<Rightarrow> string" where
  "lower s = map lower_char s"

text \<open>
  \<^verbatim>\<open>{optim_name.lower(): optim_name for optim_name in dir(optim)}\<close>: of two names with the
  same lower-case form, the later one stays.
\<close>

definition supported_optims :: "string list \<Rightarrow> (string \<rightharpoonup> string)" where
  "supported_optims names = map_of (rev (map (\<lambda>optim_name. (lower optim_name, optim_name)) names))"

text \<open>
  \<^verbatim>\<open>get_optimizer\<close>. The constructor is looked up before its arguments are evaluated, and
  \<^verbatim>\<open>self.net.parameters()\<close> raises when there is no backbone.
\<close>

definition get_optimizer :: "'x library \<Rightarrow> 'x model \<Rightarrow> error + 'x" where
  "get_optimizer lib m =
     (case supported_optims (optim_dir lib) (lower (optimizer (args m))) of
        Some optim_name \<Rightarrow>
          (case net m of
             None \<Rightarrow> Inl AttributeError
           | Some backbone \<Rightarrow>
               optim_new lib optim_name backbone
                 (lr (args m)) (optim_wd (args m)) (optim_mom (args m)))
      | None \<Rightarrow> Inl (ValueError (''Unknown optimizer: '' @ optimizer (args m))))"

subsection \<open>The constructor\<close>

text \<open>
  The \<^verbatim>\<open>try\<close> statement of the constructor: the two transforms, or both \<open>None\<close> and a
  printed warning when either derivation raises (\<^verbatim>\<open>except BaseException\<close> lets nothing
  through). The second derivation runs only if the first one returned.
\<close>

definition kornia_transforms ::
  "'x library \<Rightarrow> 'x \<Rightarrow> dataset \<Rightarrow> 'x option \<times> 'x option \<times> string list" where
  "kornia_transforms lib tr ds =
     (case weak_kornia lib tr of
        Inl e \<Rightarrow> (None, None, [''Warning: could not initialize kornia transforms.''])
      | Inr w \<Rightarrow>
          (case normalization_kornia lib ds of
             Inl e \<Rightarrow> (None, None, [''Warning: could not initialize kornia transforms.''])
           | Inr n \<Rightarrow> (Some w, Some n, [])))"

text \<open>
  \<^verbatim>\<open>__init__\<close>, for a strategy class with the attributes \<open>name\<close> and \<open>tags\<close>. The result is
  the instance or the exception, with the lines printed up to there.
\<close>

definition init ::
  "'x library \<Rightarrow> string \<Rightarrow> string list \<Rightarrow> 'x option \<Rightarrow> 'x \<Rightarrow> namespace \<Rightarrow> 'x \<Rightarrow>
     (error + 'x model) \<times> string list" where
  "init lib name tags backbone loss_fn ns tr =
     (case get_dataset lib ns of
        Inl e \<Rightarrow> (Inl e, [])
      | Inr ds \<Rightarrow>
          (case kornia_transforms lib tr ds of
             (weak, normalization, out1) \<Rightarrow>
               let m = \<lparr>NAME = name, COMPATIBILITY = tags, net = backbone, loss = loss_fn,
                        args = ns, transform = tr, dataset = ds,
                        N_CLASSES = ds_N_CLASSES ds, N_TASKS = ds_N_TASKS ds,
                        SETTING = ds_SETTING ds, cpt = ds_N_CLASSES_PER_TASK ds,
                        current_task = 0, weak_transform = weak,
                        normalization_transform = normalization, opt = None, device = None,
                        buffer = None, n_classes_current_task = None,
                        n_seen_classes = None, n_remaining_classes = None,
                        n_past_classes = None\<rparr>
               in (case (if net m \<noteq> None then map_sum id Some (get_optimizer lib m)
                         else Inr None) of
                     Inl e \<Rightarrow> (Inl e, out1)
                   | Inr optim \<Rightarrow>
                       let out2 = out1 @
                             (if net m \<noteq> None then []
                              else [''Warning: no default model for this dataset. '' @
                                    ''You will have to specify the optimizer yourself.'']);
                           m = m\<lparr>opt := optim\<rparr>
                       in (case get_device lib of
                             Inl e \<Rightarrow> (Inl e, out2)
                           | Inr dev \<Rightarrow>
                               let m = m\<lparr>device := Some dev\<rparr>
                               in if NAME m = [] \<or> COMPATIBILITY m = [] then
                                    (Inl (NotImplementedError
                                       (''Please specify the name and the '' @
                                        ''compatibility of the model.'')), out2)
                                  else
                                    (Inr m, out2 @
                                       (if label_perc (args m) \<noteq> 1 \<and>
                                           ''cssl'' \<notin> set (COMPATIBILITY m)
                                        then [''WARNING: label_perc is not explicitly '' @
                                              ''supported by this model -> training may break'']
                                        else []))))))"

subsection \<open>The replay buffer\<close>

text \<open>
  \<^verbatim>\<open>load_buffer\<close>: the \<^verbatim>\<open>assert\<close> raises \<^verbatim>\<open>AssertionError\<close> before the attribute is assigned
  (as the interpreter runs it by default, with assertions on).
\<close>

definition load_buffer :: "'x model \<Rightarrow> 'x replay_buffer \<Rightarrow> error + 'x model" where
  "load_buffer m b =
     (if int (length (examples b)) = buffer_size (args m) then Inr (m\<lparr>buffer := Some b\<rparr>)
      else Inl (AssertionError ''Buffer size mismatch. Expected {} got {}''
                 [buffer_size (args m), int (length (examples b))]))"

subsection \<open>A configuration for the examples\<close>

text \<open>
  A five-task, ten-class configuration, a strategy instance over it with a given
  classes-per-task value and task index, and a library in which \<^verbatim>\<open>sgd\<close> is the only
  optimizer; opaque objects are numbers.
\<close>

definition demo_args :: namespace where
  "demo_args =
     \<lparr>optimizer = ''SGD'', lr = 1 / 10, optim_wd = 0, optim_mom = 0, label_perc = 1,
      buffer_size = 2, nowand = False, debug_mode = False\<rparr>"

definition demo_dataset :: "cpt \<Rightarrow> dataset" where
  "demo_dataset c =
     \<lparr>ds_N_CLASSES = 10, ds_N_TASKS = 5, ds_SETTING = ''class-il'',
      ds_N_CLASSES_PER_TASK = c\<rparr>"

definition demo_model :: "cpt \<Rightarrow> int \<Rightarrow> rat model" where
  "demo_model c t =
     \<lparr>NAME = ''sgd'', COMPATIBILITY = [''class-il'', ''task-il''], net = Some 0, loss = 0,
      args = demo_args, transform = 0, dataset = demo_dataset c, N_CLASSES = 10,
      N_TASKS = 5, SETTING = ''class-il'', cpt = c, current_task = t,
      weak_transform = None, normalization_transform = None, opt = Some 0,
      device = Some 0, buffer = None, n_classes_current_task = None,
      n_seen_classes = None, n_remaining_classes = None, n_past_classes = None\<rparr>"

text \<open>
  Two strategies for the examples: one whose \<^verbatim>\<open>observe\<close> returns what it was called with
  (the positional arguments and the keyword argument \<^verbatim>\<open>logits\<close>), and one whose \<^verbatim>\<open>observe\<close>
  returns the loss 2.5 and leaves the locals \<^verbatim>\<open>loss\<close>, \<^verbatim>\<open>loss_reg\<close> and \<^verbatim>\<open>outputs\<close> behind.
\<close>

definition echo_observe :: "(rat, rat pyval list \<times> rat pyval option) strategy_observe" where
  "echo_observe as kwargs = Inr ((as, kwargs ''logits''), Map.empty)"

definition loss_observe :: "(rat, rat) strategy_observe" where
  "loss_observe as kwargs =
     Inr (5 / 2, [''loss'' \<mapsto> Plain (5 / 2), ''loss_reg'' \<mapsto> Tensor0 (1 / 4),
                 ''outputs'' \<mapsto> Tensor [1, 2]])"

definition demo_library :: "rat library" where
  "demo_library =
     \<lparr>get_dataset = (\<lambda>ns. Inr (demo_dataset (Scalar 2))),
      weak_kornia = (\<lambda>tr. Inr 1),
      normalization_kornia = (\<lambda>ds. Inr 2),
      optim_dir = [''sgd''],
      optim_new = (\<lambda>optim_name backbone l wd mom. Inr 3),
      get_device = Inr 4\<rparr>"

section \<open>Properties\<close>

lemma py_slice_to_nonneg: "0 \<le> k \<Longrightarrow> py_slice_to xs k = take (nat k) xs"
  by (simp add: py_slice_to_def)

lemma py_index_in_range:
  "0 \<le> i \<Longrightarrow> i < int (length xs) \<Longrightarrow> py_index xs i = Inr (xs ! nat i)"
  by (simp add: py_index_def)

lemma py_index_past_end: "int (length xs) \<le> i \<Longrightarrow> py_index xs i = Inl IndexError"
  by (simp add: py_index_def)

lemma sum_list_take_Suc:
  "n < length xs \<Longrightarrow> sum_list (take (Suc n) xs) = sum_list (take n xs) + (xs ! n :: int)"
  by (simp add: take_Suc_conv_app_nth)

subsection \<open>Task progress\<close>

lemma meta_begin_task_past_end:
  "cpt m = PerTask cs \<Longrightarrow> int (length cs) \<le> current_task m \<Longrightarrow>
     meta_begin_task m d = Inl IndexError"
  by (simp add: meta_begin_task_def py_index_past_end)

lemma meta_end_task_advances:
  "\<exists>m'. meta_end_task m d = Inr m' \<and> current_task m' = current_task m + 1"
  by (simp add: meta_end_task_def end_task_def)

text \<open>
  C1. After \<^verbatim>\<open>meta_begin_task\<close> at task index \<open>t\<close>: with a scalar \<open>C\<close> classes per task the
  call returns with \<^verbatim>\<open>n_seen_classes\<close> \<open>= C * (t + 1)\<close> and \<^verbatim>\<open>n_past_classes\<close> \<open>= C * t\<close>; with a
  per-task sequence and \<open>t\<close> an index of it, the call returns with \<^verbatim>\<open>n_seen_classes\<close> the sum
  of the first \<open>t + 1\<close> entries and \<^verbatim>\<open>n_past_classes\<close> the sum of the first \<open>t\<close> entries.
\<close>

theorem meta_begin_task_counts:
  "(cpt m = Scalar c \<longrightarrow>
      (\<exists>m'. meta_begin_task m d = Inr m' \<and>
            n_seen_classes m' = Some (c * (current_task m + 1)) \<and>
            n_past_classes m' = Some (c * current_task m))) \<and>
   (cpt m = PerTask cs \<and> 0 \<le> current_task m \<and> current_task m < int (length cs) \<longrightarrow>
      (\<exists>m'. meta_begin_task m d = Inr m' \<and>
            n_seen_classes m' = Some (sum_list (take (nat (current_task m) + 1) cs)) \<and>
            n_past_classes m' = Some (sum_list (take (nat (current_task m)) cs))))"
  by (simp add: meta_begin_task_def begin_task_def py_index_in_range py_slice_to_nonneg
      nat_add_distrib Let_def)

theorem meta_begin_task_counts_witness:
  "(\<exists>m'. meta_begin_task (demo_model (Scalar 2) 3) (demo_dataset (Scalar 2)) = Inr m' \<and>
         n_seen_classes m' = Some 8 \<and> n_past_classes m' = Some 6) \<and>
   (\<exists>m'. meta_begin_task (demo_model (PerTask [3, 2, 5]) 1) (demo_dataset (PerTask [3, 2, 5]))
           = Inr m' \<and>
         n_seen_classes m' = Some 5 \<and> n_past_classes m' = Some 3)"
  using meta_begin_task_counts
          [of "demo_model (Scalar 2) 3" 2 "demo_dataset (Scalar 2)"]
        meta_begin_task_counts
          [of "demo_model (PerTask [3, 2, 5]) 1" _ "demo_dataset (PerTask [3, 2, 5])"
              "[3, 2, 5]"]
  by (simp add: demo_model_def)

text \<open>
  C10. After a call of \<^verbatim>\<open>meta_begin_task\<close> at a task index \<open>t \<ge> 0\<close>, for a scalar and for a
  per-task sequence alike, \<^verbatim>\<open>n_seen_classes + n_remaining_classes = N_CLASSES\<close> and
  \<^verbatim>\<open>n_past_classes + n_classes_current_task = n_seen_classes\<close>. The only call that does not
  return is the one whose index is past the end of the sequence: it raises \<^verbatim>\<open>IndexError\<close>.
\<close>

theorem task_progress_invariant:
  assumes "0 \<le> current_task m"
  shows "case meta_begin_task m d of
           Inr m' \<Rightarrow>
             (\<exists>s r p c. n_seen_classes m' = Some s \<and> n_remaining_classes m' = Some r \<and>
                n_past_classes m' = Some p \<and> n_classes_current_task m' = Some c \<and>
                s + r = N_CLASSES m' \<and> p + c = s)
         | Inl e \<Rightarrow>
             e = IndexError \<and> (\<exists>cs. cpt m = PerTask cs \<and> int (length cs) \<le> current_task m)"
proof (cases "cpt m")
  case (Scalar c)
  then show ?thesis
    by (simp add: meta_begin_task_def begin_task_def Let_def distrib_left)
next
  case (PerTask cs)
  show ?thesis
  proof (cases "current_task m < int (length cs)")
    case True
    with assms have n: "nat (current_task m) < length cs" by simp
    from assms have s: "nat (current_task m + 1) = Suc (nat (current_task m))" by simp
    from PerTask True assms n show ?thesis
      by (simp add: meta_begin_task_def begin_task_def Let_def py_index_in_range
          py_slice_to_nonneg s sum_list_take_Suc)
  next
    case False
    with PerTask show ?thesis
      by (simp add: meta_begin_task_past_end)
  qed
qed

theorem task_progress_invariant_witness:
  "(0::int) \<le> current_task (demo_model (PerTask [3, 2, 5]) 2) \<and>
   (case meta_begin_task (demo_model (PerTask [3, 2, 5]) 2) (demo_dataset (PerTask [3, 2, 5])) of
      Inr m' \<Rightarrow>
        n_seen_classes m' = Some 10 \<and> n_remaining_classes m' = Some 0 \<and>
        n_past_classes m' = Some 5 \<and> n_classes_current_task m' = Some 5 \<and>
        N_CLASSES m' = 10
    | Inl e \<Rightarrow> False)"
proof -
  have h: "0 \<le> current_task (demo_model (PerTask [3, 2, 5]) 2)"
    by (simp add: demo_model_def)
  have r: "meta_begin_task (demo_model (PerTask [3, 2, 5]) 2) (demo_dataset (PerTask [3, 2, 5]))
             = Inr ((demo_model (PerTask [3, 2, 5]) 2)
                 \<lparr>n_classes_current_task := Some 5, n_seen_classes := Some 10,
                  n_remaining_classes := Some 0, n_past_classes := Some 5\<rparr>)"
    by (simp add: meta_begin_task_def begin_task_def demo_model_def py_index_def
        py_slice_to_def Let_def)
  show ?thesis
    using h task_progress_invariant [OF h, of "demo_dataset (PerTask [3, 2, 5])"]
    by (simp add: r)
qed

subsection \<open>The abstract observation step\<close>

text \<open>
  C9. Whatever its arguments, \<^verbatim>\<open>observe\<close> of the base class raises \<^verbatim>\<open>NotImplementedError\<close> and
  returns no value.
\<close>

theorem observe_abstract:
  "observe m inputs labels not_aug_inputs epoch = Inl (NotImplementedError []) \<and>
   (\<forall>r. observe m inputs labels not_aug_inputs epoch \<noteq> Inr r)"
  by (simp add: observe_def)

subsection \<open>Attaching a buffer\<close>

text \<open>
  C6. A buffer whose number of stored examples differs from \<^verbatim>\<open>args.buffer_size\<close> makes
  \<^verbatim>\<open>load_buffer\<close> raise \<^verbatim>\<open>AssertionError\<close> (the size mismatch), with no attribute assigned;
  with equal numbers \<^verbatim>\<open>load_buffer\<close> returns and \<^verbatim>\<open>buffer\<close> holds the buffer, every other
  attribute as before.
\<close>

theorem load_buffer_size:
  "(int (length (examples b)) \<noteq> buffer_size (args m) \<longrightarrow>
      load_buffer m b =
        Inl (AssertionError ''Buffer size mismatch. Expected {} got {}''
               [buffer_size (args m), int (length (examples b))])) \<and>
   (int (length (examples b)) = buffer_size (args m) \<longrightarrow>
      (\<exists>m'. load_buffer m b = Inr m' \<and> buffer m' = Some b \<and> m' = m\<lparr>buffer := Some b\<rparr>))"
  by (simp add: load_buffer_def)

theorem load_buffer_size_witness:
  "load_buffer (demo_model (Scalar 2) 0) \<lparr>examples = [1, 2, 3]\<rparr> =
     Inl (AssertionError ''Buffer size mismatch. Expected {} got {}'' [2, 3]) \<and>
   (\<exists>m'. load_buffer (demo_model (Scalar 2) 0) \<lparr>examples = [1, 2]\<rparr> = Inr m' \<and>
         buffer m' = Some \<lparr>examples = [1, 2]\<rparr>)"
  using load_buffer_size [of "\<lparr>examples = [1, 2, 3]\<rparr>" "demo_model (Scalar 2) 0"]
        load_buffer_size [of "\<lparr>examples = [1, 2]\<rparr>" "demo_model (Scalar 2) 0"]
  by (simp add: demo_model_def demo_args_def)

subsection \<open>The arguments that reach the observation step\<close>

lemma index_mask_nths:
  "length keep = length xs \<Longrightarrow>
     map fst (filter snd (zip xs keep)) = nths xs {j. j < length keep \<and> keep ! j}"
proof (induction xs keep rule: list_induct2')
  case (4 x xs k ks)
  then show ?case by (simp add: nths_Cons)
qed simp_all

lemma labeled_positions:
  "{j. j < length (map (\<lambda>l. l \<noteq> s) ls) \<and> map (\<lambda>l. l \<noteq> s) ls ! j} =
   {j. j < length ls \<and> ls ! j \<noteq> s}"
  by auto

lemma index_mask_labels:
  "length xs = length ls \<Longrightarrow>
     index_mask xs (map (\<lambda>l. l \<noteq> s) ls) = Inr (nths xs {j. j < length ls \<and> ls ! j \<noteq> s})"
  unfolding index_mask_def
  using index_mask_nths [of "map (\<lambda>l. l \<noteq> s) ls" xs] labeled_positions [of s ls]
  by simp

lemma comprehension_select_labeled:
  assumes "shape0 first = Inr (length (ls :: int list))"
    and "\<forall>a \<in> set xs. \<forall>x. a \<noteq> Tensor0 x"
  shows "comprehension (select_labeled (map (\<lambda>l. l \<noteq> s) ls) first) xs =
         Inr (map (\<lambda>a. case a of
                  Tensor rs \<Rightarrow>
                    if length rs = length ls
                    then Tensor (nths rs {j. j < length ls \<and> ls ! j \<noteq> s}) else a
                | IntTensor dt' ks \<Rightarrow>
                    if length ks = length ls
                    then IntTensor dt' (nths ks {j. j < length ls \<and> ls ! j \<noteq> s}) else a
                | _ \<Rightarrow> a) xs)"
  using assms(2)
proof (induction xs)
  case Nil
  then show ?case by simp
next
  case (Cons a xs)
  then show ?case
    by (cases a) (simp_all add: assms(1) index_mask_labels)
qed

lemma to_dtype_in_range: "in_dtype dt k \<Longrightarrow> to_dtype dt k = k"
  by (cases dt) (simp_all add: in_dtype_def to_dtype_def)

text \<open>
  In every dtype, the elements removed are those equal to the sentinel as the dtype has
  it; in \<^verbatim>\<open>uint8\<close> that is the label 255.
\<close>

lemma drop_unlabeled_sentinel:
  assumes "''cssl'' \<notin> set (COMPATIBILITY m)"
    and "as = first # IntTensor dt ls # rest"
    and "shape0 first = Inr (length ls)"
    and "\<forall>a \<in> set as. \<forall>x. a \<noteq> Tensor0 x"
  shows "drop_unlabeled m as =
         Returned
           (map (\<lambda>a. case a of
                  Tensor rs \<Rightarrow>
                    if length rs = length ls
                    then Tensor (nths rs {j. j < length ls \<and> ls ! j \<noteq> to_dtype dt (- 1)})
                    else a
                | IntTensor dt' ks \<Rightarrow>
                    if length ks = length ls
                    then IntTensor dt'
                           (nths ks {j. j < length ls \<and> ls ! j \<noteq> to_dtype dt (- 1)})
                    else a
                | _ \<Rightarrow> a) as)"
proof -
  have "py_index as 1 = Inr (IntTensor dt ls)"
    using assms(2) by (simp add: py_index_def)
  moreover have "as ! 0 = first"
    using assms(2) by simp
  ultimately show ?thesis
    using assms(1) comprehension_select_labeled [OF assms(3) assms(4)]
    by (simp add: drop_unlabeled_def)
qed

lemma drop_unlabeled_uint8:
  "drop_unlabeled (demo_model (Scalar 2) 0)
     [Tensor [10, 20, 30], IntTensor UInt8 [0, 255, 2]] =
   Returned [Tensor [10, 30], IntTensor UInt8 [0, 2]]"
  by (simp add: drop_unlabeled_def demo_model_def py_index_def index_mask_def to_dtype_def)

lemma call_observe_result:
  "fst (call_observe w m obs as kwargs sink) =
     (case obs as kwargs of Inl e \<Rightarrow> Raised e | Inr (ret, locals) \<Rightarrow> Returned ret)"
  by (auto simp: call_observe_def autolog_wandb_def Let_def split: sum.splits prod.splits)

text \<open>
  C2, as amended. For a strategy without the tag \<^verbatim>\<open>cssl\<close> and a batch in which at least one
  label equals -1, the labels being the second positional argument, a one-dimensional
  integer tensor whose elements lie in its dtype, with one label per slice of the first
  argument and no zero-dimensional tensor among the positional arguments: \<^verbatim>\<open>observe\<close> is
  called with every positional tensor of that batch dimension reduced to the slices at
  the positions whose label is not -1, in their order and at the same positions for all
  of them; the other positional arguments and all keyword arguments are passed on
  unchanged.
\<close>

theorem meta_observe_drops_unlabeled:
  assumes "''cssl'' \<notin> set (COMPATIBILITY m)"
    and "as = first # IntTensor dt ls # rest"
    and "\<forall>l \<in> set ls. in_dtype dt l"
    and "- 1 \<in> set ls"
    and "shape0 first = Inr (length ls)"
    and "\<forall>a \<in> set as. \<forall>x. a \<noteq> Tensor0 x"
  shows "meta_observe w m obs as kwargs sink =
         call_observe w m obs
           (map (\<lambda>a. case a of
                  Tensor rs \<Rightarrow>
                    if length rs = length ls
                    then Tensor (nths rs {j. j < length ls \<and> ls ! j \<noteq> - 1}) else a
                | IntTensor dt' ks \<Rightarrow>
                    if length ks = length ls
                    then IntTensor dt' (nths ks {j. j < length ls \<and> ls ! j \<noteq> - 1}) else a
                | _ \<Rightarrow> a) as) kwargs sink"
proof -
  from assms(3) assms(4) have "in_dtype dt (- 1)"
    by blast
  then have s: "to_dtype dt (- 1) = - 1"
    by (rule to_dtype_in_range)
  note drop_unlabeled_sentinel [OF assms(1) assms(2) assms(5) assms(6), unfolded s]
  then show ?thesis
    by (simp add: meta_observe_def)
qed

theorem meta_observe_drops_unlabeled_witness:
  "meta_observe False (demo_model (Scalar 2) 0) echo_observe
      [Tensor [10, 20, 30], IntTensor Int64 [0, - 1, 2], Tensor [11, 21, 31], Plain 7]
      Map.empty [] =
    (Returned ([Tensor [10, 30], IntTensor Int64 [0, 2], Tensor [11, 31], Plain 7], None), [])"
proof -
  let ?m = "demo_model (Scalar 2) 0"
  let ?as = "[Tensor [10, 20, 30], IntTensor Int64 [0, - 1, 2], Tensor [11, 21, 31], Plain 7]
               :: rat pyval list"
  have 1: "''cssl'' \<notin> set (COMPATIBILITY ?m)"
    by (simp add: demo_model_def)
  have 2: "?as =
      Tensor [10, 20, 30] # IntTensor Int64 [0, - 1, 2] # [Tensor [11, 21, 31], Plain 7]"
    by simp
  have 3: "\<forall>l \<in> set [0, - 1, 2]. in_dtype Int64 l"
    by (simp add: in_dtype_def)
  have 4: "- 1 \<in> set [0, - 1, 2 :: int]"
    by simp
  have 5: "shape0 (Tensor [10, 20, 30 :: rat]) = Inr (length [0, - 1, 2 :: int])"
    by simp
  have 6: "\<forall>a \<in> set ?as. \<forall>x. a \<noteq> Tensor0 x"
    by simp
  from meta_observe_drops_unlabeled [OF 1 2 3 4 5 6, of False echo_observe Map.empty "[]"]
  show ?thesis
    by (simp add: nths_Cons call_observe_def echo_observe_def demo_model_def demo_args_def)
qed

text \<open>
  C2 as stated fails for a keyword argument: here \<^verbatim>\<open>logits\<close> has the batch dimension of the
  first argument and the label at position 1 is -1, yet \<^verbatim>\<open>observe\<close> receives all three
  slices of \<^verbatim>\<open>logits\<close> next to two slices of each positional tensor.
\<close>

theorem meta_observe_keyword_counterexample:
  "meta_observe False (demo_model (Scalar 2) 0) echo_observe
      [Tensor [10, 20, 30], IntTensor Int64 [0, - 1, 2], Tensor [11, 21, 31], Plain 7]
      [''logits'' \<mapsto> Tensor [1, 2, 3]] [] =
    (Returned ([Tensor [10, 30], IntTensor Int64 [0, 2], Tensor [11, 31], Plain 7],
               Some (Tensor [1, 2, 3])), [])"
  by (simp add: meta_observe_def drop_unlabeled_def call_observe_def echo_observe_def
      demo_model_def demo_args_def py_index_def index_mask_def to_dtype_def)

text \<open>
  C3. For a strategy with the tag \<^verbatim>\<open>cssl\<close>, \<^verbatim>\<open>meta_observe\<close> hands its positional and keyword
  arguments to \<^verbatim>\<open>observe\<close> as they are, whatever the labels, and its outcome is that of
  \<^verbatim>\<open>observe\<close> on them.
\<close>

theorem meta_observe_cssl:
  assumes "''cssl'' \<in> set (COMPATIBILITY m)"
  shows "meta_observe w m obs as kwargs sink = call_observe w m obs as kwargs sink \<and>
         fst (meta_observe w m obs as kwargs sink) =
           (case obs as kwargs of Inl e \<Rightarrow> Raised e | Inr (ret, locals) \<Rightarrow> Returned ret)"
  using assms by (simp add: meta_observe_def drop_unlabeled_def call_observe_result)

theorem meta_observe_cssl_witness:
  "''cssl'' \<in> set (COMPATIBILITY ((demo_model (Scalar 2) 0)\<lparr>COMPATIBILITY := [''class-il'', ''cssl'']\<rparr>)) \<and>
   fst (meta_observe False ((demo_model (Scalar 2) 0)\<lparr>COMPATIBILITY := [''class-il'', ''cssl'']\<rparr>)
          echo_observe [Tensor [10, 20, 30], IntTensor Int64 [0, - 1, - 1], Tensor [11, 21, 31]]
          Map.empty []) =
     Returned ([Tensor [10, 20, 30], IntTensor Int64 [0, - 1, - 1], Tensor [11, 21, 31]], None)"
proof -
  let ?m = "(demo_model (Scalar 2) 0)\<lparr>COMPATIBILITY := [''class-il'', ''cssl'']\<rparr>"
  have h: "''cssl'' \<in> set (COMPATIBILITY ?m)" by simp
  from meta_observe_cssl [OF h, THEN conjunct2, of False echo_observe
      "[Tensor [10, 20, 30], IntTensor Int64 [0, - 1, - 1], Tensor [11, 21, 31]]" Map.empty "[]"]
  have "fst (meta_observe False ?m echo_observe
          [Tensor [10, 20, 30], IntTensor Int64 [0, - 1, - 1], Tensor [11, 21, 31]] Map.empty []) =
     Returned ([Tensor [10, 20, 30], IntTensor Int64 [0, - 1, - 1], Tensor [11, 21, 31]], None)"
    by (simp add: echo_observe_def)
  with h show ?thesis by blast
qed

subsection \<open>Logging the locals of the observation step\<close>

lemma call_observe_silent:
  "\<not> w \<or> nowand (args m) \<or> debug_mode (args m) \<Longrightarrow>
     snd (call_observe w m obs as kwargs sink) = sink"
  by (auto simp: call_observe_def autolog_wandb_def split: sum.splits prod.splits)

lemma call_observe_logs:
  "w \<Longrightarrow> \<not> nowand (args m) \<Longrightarrow> \<not> debug_mode (args m) \<Longrightarrow> obs as kwargs = Inr (ret, locals) \<Longrightarrow>
     call_observe w m obs as kwargs sink =
       (Returned ret,
        sink @ [\<lambda>k. if prefix ''_wandb_'' k \<or> prefix ''loss'' k
                     then map_option item (locals k) else None])"
  by (simp add: call_observe_def autolog_wandb_def)

text \<open>
  C7. With \<^verbatim>\<open>wandb\<close> imported, \<^verbatim>\<open>nowand\<close> off and \<^verbatim>\<open>debug_mode\<close> off, a call of \<^verbatim>\<open>meta_observe\<close>
  whose \<^verbatim>\<open>observe\<close> returns makes exactly one call of \<^verbatim>\<open>wandb.log\<close>, with the locals whose
  name starts with \<^verbatim>\<open>_wandb_\<close> or \<^verbatim>\<open>loss\<close>: a local \<^verbatim>\<open>loss\<close> bound to a plain value is logged
  with that value, and a zero-dimensional tensor is logged as its plain value. Without
  \<^verbatim>\<open>wandb\<close>, with \<^verbatim>\<open>nowand\<close> on or with \<^verbatim>\<open>debug_mode\<close> on, nothing is logged, whatever the
  locals and whatever the outcome.
\<close>

theorem meta_observe_autolog:
  "(w \<and> \<not> nowand (args m) \<and> \<not> debug_mode (args m) \<and>
    drop_unlabeled m as = Returned as' \<and> obs as' kwargs = Inr (ret, locals) \<longrightarrow>
      (\<exists>logged.
         meta_observe w m obs as kwargs sink = (Returned ret, sink @ [logged]) \<and>
         logged = (\<lambda>k. if prefix ''_wandb_'' k \<or> prefix ''loss'' k
                        then map_option item (locals k) else None) \<and>
         (\<forall>x. locals ''loss'' = Some (Plain x) \<longrightarrow> logged ''loss'' = Some (Plain x)) \<and>
         (\<forall>k x. (prefix ''_wandb_'' k \<or> prefix ''loss'' k) \<and> locals k = Some (Tensor0 x) \<longrightarrow>
                logged k = Some (Plain x)))) \<and>
   (\<not> w \<or> nowand (args m) \<or> debug_mode (args m) \<longrightarrow>
      snd (meta_observe w m obs as kwargs sink) = sink)"
proof (intro conjI impI)
  assume a: "w \<and> \<not> nowand (args m) \<and> \<not> debug_mode (args m) \<and>
    drop_unlabeled m as = Returned as' \<and> obs as' kwargs = Inr (ret, locals)"
  then have "meta_observe w m obs as kwargs sink =
       (Returned ret,
        sink @ [\<lambda>k. if prefix ''_wandb_'' k \<or> prefix ''loss'' k
                     then map_option item (locals k) else None])"
    by (simp add: meta_observe_def call_observe_logs)
  then show "\<exists>logged.
         meta_observe w m obs as kwargs sink = (Returned ret, sink @ [logged]) \<and>
         logged = (\<lambda>k. if prefix ''_wandb_'' k \<or> prefix ''loss'' k
                        then map_option item (locals k) else None) \<and>
         (\<forall>x. locals ''loss'' = Some (Plain x) \<longrightarrow> logged ''loss'' = Some (Plain x)) \<and>
         (\<forall>k x. (prefix ''_wandb_'' k \<or> prefix ''loss'' k) \<and> locals k = Some (Tensor0 x) \<longrightarrow>
                logged k = Some (Plain x))"
    by (simp add: item_def)
next
  assume "\<not> w \<or> nowand (args m) \<or> debug_mode (args m)"
  then show "snd (meta_observe w m obs as kwargs sink) = sink"
    by (cases "drop_unlabeled m as") (simp_all add: meta_observe_def call_observe_silent)
qed

theorem meta_observe_autolog_witness:
  "(\<exists>logged. meta_observe True (demo_model (Scalar 2) 0) loss_observe
       [Tensor [10, 20], IntTensor Int64 [0, 1]] Map.empty [] = (Returned (5 / 2), [logged]) \<and>
       logged ''loss'' = Some (Plain (5 / 2)) \<and> logged ''loss_reg'' = Some (Plain (1 / 4)) \<and>
       logged ''outputs'' = None) \<and>
   snd (meta_observe True ((demo_model (Scalar 2) 0)\<lparr>args := demo_args\<lparr>debug_mode := True\<rparr>\<rparr>)
          loss_observe [Tensor [10, 20], IntTensor Int64 [0, 1]] Map.empty []) = []"
proof -
  let ?m = "demo_model (Scalar 2) 0"
  let ?as = "[Tensor [10, 20], IntTensor Int64 [0, 1]] :: rat pyval list"
  let ?locals = "[''loss'' \<mapsto> Plain (5 / 2), ''loss_reg'' \<mapsto> Tensor0 (1 / 4),
                  ''outputs'' \<mapsto> Tensor [1, 2]] :: rat bindings"
  have d: "drop_unlabeled ?m ?as = Returned ?as"
    by (simp add: drop_unlabeled_def demo_model_def py_index_def index_mask_def to_dtype_def)
  have f: "\<not> nowand (args ?m) \<and> \<not> debug_mode (args ?m)"
    by (simp add: demo_model_def demo_args_def)
  have o: "loss_observe ?as Map.empty = Inr (5 / 2, ?locals)"
    by (simp add: loss_observe_def)
  have g: "debug_mode (args (?m\<lparr>args := demo_args\<lparr>debug_mode := True\<rparr>\<rparr>))"
    by simp
  from d f o meta_observe_autolog [of True ?m ?as ?as loss_observe Map.empty "5 / 2" ?locals "[]"]
  obtain logged where
    l: "meta_observe True ?m loss_observe ?as Map.empty [] = (Returned (5 / 2), [logged])"
       "logged = (\<lambda>k. if prefix ''_wandb_'' k \<or> prefix ''loss'' k
                        then map_option item (?locals k) else None)"
    by auto
  from l(2) have "logged ''loss'' = Some (Plain (5 / 2)) \<and>
      logged ''loss_reg'' = Some (Plain (1 / 4)) \<and> logged ''outputs'' = None"
    by (simp add: item_def)
  with l(1) show ?thesis
    using g meta_observe_autolog [of True "?m\<lparr>args := demo_args\<lparr>debug_mode := True\<rparr>\<rparr>"
            ?as ?as loss_observe Map.empty "5 / 2" ?locals "[]"]
    by simp
qed

subsection \<open>Choosing the optimizer\<close>

lemma lower_sgd: "lower ''SGD'' = ''sgd''" "lower ''sgd'' = ''sgd''"
  by (simp_all add: lower_def lower_char_def)

lemma supported_optims_None:
  "supported_optims names k = None \<longleftrightarrow> k \<notin> lower ` set names"
  by (simp add: supported_optims_def map_of_eq_None_iff image_image)

lemma supported_optims_Some:
  "supported_optims names k = Some n \<Longrightarrow> n \<in> set names \<and> lower n = k"
  by (auto simp: supported_optims_def dest: map_of_SomeD)

text \<open>
  C5. \<^verbatim>\<open>get_optimizer\<close> compares the requested name with the names of the optimizer module
  in lower case. With no match it raises \<^verbatim>\<open>ValueError\<close> (unknown optimizer). With a match,
  in whatever case, it calls the constructor registered under a matching name with the
  parameters of the backbone and the three options, and returns the optimizer whenever
  the constructors of the matching names return one.
\<close>

theorem get_optimizer_case_insensitive:
  "(lower (optimizer (args m)) \<notin> lower ` set (optim_dir lib) \<longrightarrow>
      get_optimizer lib m = Inl (ValueError (''Unknown optimizer: '' @ optimizer (args m)))) \<and>
   (net m = Some b \<and> lower (optimizer (args m)) \<in> lower ` set (optim_dir lib) \<longrightarrow>
      (\<exists>n. n \<in> set (optim_dir lib) \<and> lower n = lower (optimizer (args m)) \<and>
           get_optimizer lib m =
             optim_new lib n b (lr (args m)) (optim_wd (args m)) (optim_mom (args m)))) \<and>
   (net m = Some b \<and> lower (optimizer (args m)) \<in> lower ` set (optim_dir lib) \<and>
    (\<forall>n \<in> set (optim_dir lib). lower n = lower (optimizer (args m)) \<longrightarrow>
       (\<exists>o'. optim_new lib n b (lr (args m)) (optim_wd (args m)) (optim_mom (args m)) = Inr o')) \<longrightarrow>
      (\<exists>o'. get_optimizer lib m = Inr o'))"
proof -
  let ?k = "lower (optimizer (args m))"
  have none: "?k \<notin> lower ` set (optim_dir lib) \<Longrightarrow>
      get_optimizer lib m = Inl (ValueError (''Unknown optimizer: '' @ optimizer (args m)))"
    using supported_optims_None [of "optim_dir lib" ?k] by (simp add: get_optimizer_def)
  have some: "\<exists>n. n \<in> set (optim_dir lib) \<and> lower n = ?k \<and>
           get_optimizer lib m =
             optim_new lib n b (lr (args m)) (optim_wd (args m)) (optim_mom (args m))"
    if "net m = Some b" and "?k \<in> lower ` set (optim_dir lib)"
  proof -
    from that(2) obtain n where n: "supported_optims (optim_dir lib) ?k = Some n"
      using supported_optims_None [of "optim_dir lib" ?k] by auto
    with that(1) have "get_optimizer lib m =
        optim_new lib n b (lr (args m)) (optim_wd (args m)) (optim_mom (args m))"
      by (simp add: get_optimizer_def)
    with supported_optims_Some [OF n] show ?thesis by blast
  qed
  from none some show ?thesis by metis
qed

theorem get_optimizer_case_insensitive_witness:
  "get_optimizer (demo_library\<lparr>optim_dir := [''sgd'']\<rparr>)
     ((demo_model (Scalar 2) 0)\<lparr>args := demo_args\<lparr>optimizer := ''SGD''\<rparr>\<rparr>) = Inr 3 \<and>
   get_optimizer (demo_library\<lparr>optim_dir := [''sgd'']\<rparr>)
     ((demo_model (Scalar 2) 0)\<lparr>args := demo_args\<lparr>optimizer := ''Adam''\<rparr>\<rparr>) =
     Inl (ValueError ''Unknown optimizer: Adam'')"
proof -
  let ?lib = "demo_library\<lparr>optim_dir := [''sgd'']\<rparr>"
  let ?m = "(demo_model (Scalar 2) 0)\<lparr>args := demo_args\<lparr>optimizer := ''SGD''\<rparr>\<rparr>"
  let ?m' = "(demo_model (Scalar 2) 0)\<lparr>args := demo_args\<lparr>optimizer := ''Adam''\<rparr>\<rparr>"
  have l: "lower ''SGD'' = ''sgd''" "lower ''sgd'' = ''sgd''" "lower ''Adam'' = ''adam''"
    by (simp_all add: lower_def lower_char_def)
  have 1: "net ?m = Some 0 \<and> lower (optimizer (args ?m)) \<in> lower ` set (optim_dir ?lib)"
    by (simp add: l demo_model_def)
  have 2: "lower (optimizer (args ?m')) \<notin> lower ` set (optim_dir ?lib)"
    by (simp add: l)
  from 1 get_optimizer_case_insensitive [of ?m ?lib 0]
  obtain n where "n \<in> set (optim_dir ?lib)" and
    "get_optimizer ?lib ?m = optim_new ?lib n 0 (lr (args ?m)) (optim_wd (args ?m)) (optim_mom (args ?m))"
    by blast
  then have a: "get_optimizer ?lib ?m = Inr 3"
    by (simp add: demo_library_def)
  from 2 get_optimizer_case_insensitive [of ?m' ?lib 0]
  have "get_optimizer ?lib ?m' = Inl (ValueError (''Unknown optimizer: '' @ optimizer (args ?m')))"
    by blast
  with a show ?thesis by simp
qed

subsection \<open>Construction\<close>

lemma init_fails_without_name:
  "name = [] \<or> tags = [] \<Longrightarrow> fst (init lib name tags backbone loss_fn ns tr) \<noteq> Inr m"
  by (auto simp: init_def Let_def split: sum.splits prod.splits)

text \<open>
  The optimizer is chosen before the name and the tags are checked: with an unknown
  optimizer, a strategy without a name fails with the \<^verbatim>\<open>ValueError\<close> of \<^verbatim>\<open>get_optimizer\<close>.
\<close>

lemma init_unknown_optimizer_first:
  "fst (init demo_library [] [''class-il''] (Some 0) 0 (demo_args\<lparr>optimizer := ''bogus''\<rparr>) 0) =
     Inl (ValueError ''Unknown optimizer: bogus'')"
  by (simp add: init_def demo_library_def demo_args_def kornia_transforms_def
        get_optimizer_def supported_optims_def lower_def lower_char_def Let_def)

text \<open>
  C4. With an empty \<^verbatim>\<open>NAME\<close>, or a non-empty \<^verbatim>\<open>NAME\<close> and an empty \<^verbatim>\<open>COMPATIBILITY\<close>, the
  constructor never returns an instance; when the steps before the check return (the
  dataset, the optimizer if there is a backbone, the device), what it raises is the
  \<^verbatim>\<open>NotImplementedError\<close> that asks for the name and the compatibility.
\<close>

theorem init_requires_name_and_tags:
  assumes "name = [] \<or> tags = []"
  shows "(\<forall>m. fst (init lib name tags backbone loss_fn ns tr) \<noteq> Inr m) \<and>
         (get_dataset lib ns = Inr ds \<and> get_device lib = Inr dev \<and>
          (backbone = None \<or>
           (\<exists>b n o'. backbone = Some b \<and>
              supported_optims (optim_dir lib) (lower (optimizer ns)) = Some n \<and>
              optim_new lib n b (lr ns) (optim_wd ns) (optim_mom ns) = Inr o')) \<longrightarrow>
          fst (init lib name tags backbone loss_fn ns tr) =
            Inl (NotImplementedError
                   ''Please specify the name and the compatibility of the model.''))"
proof (intro conjI allI impI)
  fix m
  show "fst (init lib name tags backbone loss_fn ns tr) \<noteq> Inr m"
    using assms by (rule init_fails_without_name)
next
  assume a: "get_dataset lib ns = Inr ds \<and> get_device lib = Inr dev \<and>
          (backbone = None \<or>
           (\<exists>b n o'. backbone = Some b \<and>
              supported_optims (optim_dir lib) (lower (optimizer ns)) = Some n \<and>
              optim_new lib n b (lr ns) (optim_wd ns) (optim_mom ns) = Inr o'))"
  then show "fst (init lib name tags backbone loss_fn ns tr) =
            Inl (NotImplementedError
                   ''Please specify the name and the compatibility of the model.'')"
    using assms
    by (auto simp: init_def get_optimizer_def Let_def split: prod.splits)
qed

theorem init_requires_name_and_tags_witness:
  "fst (init demo_library [] [''class-il''] (Some 0) 0 demo_args 0) =
     Inl (NotImplementedError ''Please specify the name and the compatibility of the model.'') \<and>
   fst (init demo_library ''sgd'' [] (Some 0) 0 demo_args 0) =
     Inl (NotImplementedError ''Please specify the name and the compatibility of the model.'')"
proof -
  have r: "get_dataset demo_library demo_args = Inr (demo_dataset (Scalar 2)) \<and>
           get_device demo_library = Inr 4 \<and>
          (Some (0::rat) = None \<or>
           (\<exists>b n o'. Some 0 = Some b \<and>
              supported_optims (optim_dir demo_library) (lower (optimizer demo_args)) = Some n \<and>
              optim_new demo_library n b (lr demo_args) (optim_wd demo_args)
                (optim_mom demo_args) = Inr o'))"
    by (simp add: demo_library_def demo_args_def supported_optims_def lower_sgd)
  have 1: "([]::string) = [] \<or> [''class-il''] = []" by simp
  have 2: "''sgd'' = [] \<or> ([]::string list) = []" by simp
  from init_requires_name_and_tags
         [OF 1, where lib = demo_library and ns = demo_args and backbone = "Some 0"
            and ds = "demo_dataset (Scalar 2)" and dev = 4 and loss_fn = 0 and tr = 0]
       init_requires_name_and_tags
         [OF 2, where lib = demo_library and ns = demo_args and backbone = "Some 0"
            and ds = "demo_dataset (Scalar 2)" and dev = 4 and loss_fn = 0 and tr = 0]
       r
  show ?thesis by blast
qed

lemma kornia_transforms_failure:
  "weak_kornia lib tr = Inl e \<or> normalization_kornia lib ds = Inl e \<Longrightarrow>
     kornia_transforms lib tr ds =
       (None, None, [''Warning: could not initialize kornia transforms.''])"
  by (auto simp: kornia_transforms_def split: sum.splits)

text \<open>
  C8. When either derivation of the two transforms raises, whatever the exception, the
  \<^verbatim>\<open>try\<close> statement ends with both fields \<open>None\<close> and the warning printed; every instance the
  constructor returns then has both fields \<open>None\<close>, and the constructor does return one
  whenever its other steps succeed.
\<close>

theorem init_survives_transform_failure:
  assumes "get_dataset lib ns = Inr ds"
    and "weak_kornia lib tr = Inl e \<or> normalization_kornia lib ds = Inl e"
  shows "kornia_transforms lib tr ds =
           (None, None, [''Warning: could not initialize kornia transforms.'']) \<and>
         ''Warning: could not initialize kornia transforms.''
           \<in> set (snd (init lib name tags backbone loss_fn ns tr)) \<and>
         (\<forall>m. fst (init lib name tags backbone loss_fn ns tr) = Inr m \<longrightarrow>
              weak_transform m = None \<and> normalization_transform m = None) \<and>
         (name \<noteq> [] \<and> tags \<noteq> [] \<and> get_device lib = Inr dev \<and>
          (backbone = None \<or>
           (\<exists>b n o'. backbone = Some b \<and>
              supported_optims (optim_dir lib) (lower (optimizer ns)) = Some n \<and>
              optim_new lib n b (lr ns) (optim_wd ns) (optim_mom ns) = Inr o')) \<longrightarrow>
          (\<exists>m. fst (init lib name tags backbone loss_fn ns tr) = Inr m \<and>
               weak_transform m = None \<and> normalization_transform m = None))"
proof -
  note k = kornia_transforms_failure [OF assms(2)]
  have 1: "''Warning: could not initialize kornia transforms.''
           \<in> set (snd (init lib name tags backbone loss_fn ns tr))"
    using assms(1) k
    by (auto simp: init_def Let_def split: sum.splits)
  have 2: "weak_transform m = None \<and> normalization_transform m = None"
    if "fst (init lib name tags backbone loss_fn ns tr) = Inr m" for m
    using that assms(1) k
    by (auto simp: init_def Let_def split: sum.splits if_splits)
  have 3: "\<exists>m. fst (init lib name tags backbone loss_fn ns tr) = Inr m \<and>
               weak_transform m = None \<and> normalization_transform m = None"
    if "name \<noteq> [] \<and> tags \<noteq> [] \<and> get_device lib = Inr dev \<and>
          (backbone = None \<or>
           (\<exists>b n o'. backbone = Some b \<and>
              supported_optims (optim_dir lib) (lower (optimizer ns)) = Some n \<and>
              optim_new lib n b (lr ns) (optim_wd ns) (optim_mom ns) = Inr o'))"
    using that assms(1) k
    by (auto simp: init_def get_optimizer_def Let_def)
  from k 1 2 3 show ?thesis by blast
qed

theorem init_survives_transform_failure_witness:
  "(\<exists>m. fst (init (demo_library\<lparr>weak_kornia := (\<lambda>tr. Inl AttributeError)\<rparr>)
              ''sgd'' [''class-il''] (Some 0) 0 demo_args 0) = Inr m \<and>
        weak_transform m = None \<and> normalization_transform m = None) \<and>
   snd (init (demo_library\<lparr>weak_kornia := (\<lambda>tr. Inl AttributeError)\<rparr>)
              ''sgd'' [''class-il''] (Some 0) 0 demo_args 0) =
     [''Warning: could not initialize kornia transforms.'']"
proof -
  let ?lib = "demo_library\<lparr>weak_kornia := (\<lambda>tr. Inl AttributeError)\<rparr>"
  have d: "get_dataset ?lib demo_args = Inr (demo_dataset (Scalar 2))"
    by (simp add: demo_library_def)
  have w: "weak_kornia ?lib 0 = Inl AttributeError \<or>
           normalization_kornia ?lib (demo_dataset (Scalar 2)) = Inl AttributeError"
    by simp
  have r: "''sgd'' \<noteq> [] \<and> [''class-il''] \<noteq> [] \<and> get_device ?lib = Inr 4 \<and>
          (Some (0::rat) = None \<or>
           (\<exists>b n o'. Some 0 = Some b \<and>
              supported_optims (optim_dir ?lib) (lower (optimizer demo_args)) = Some n \<and>
              optim_new ?lib n b (lr demo_args) (optim_wd demo_args) (optim_mom demo_args) = Inr o'))"
    by (simp add: demo_library_def demo_args_def supported_optims_def lower_sgd)
  have s: "snd (init ?lib ''sgd'' [''class-il''] (Some 0) 0 demo_args 0) =
     [''Warning: could not initialize kornia transforms.'']"
    by (simp add: init_def demo_library_def demo_args_def kornia_transforms_def
        get_optimizer_def supported_optims_def lower_sgd Let_def)
  from init_survives_transform_failure
         [OF d w, where name = "''sgd''" and tags = "[''class-il'']" and dev = 4
            and backbone = "Some 0" and loss_fn = 0] r s
  show ?thesis by blast
qed

end
